theory Spec2Isabelle
  imports Main
begin

section \<open>Values, exceptions and effectful computations\<close>

text \<open>
  JavaScript values as far as the library distinguishes them. The only distinction the
  code relies on is whether a value is a function (\<open>typeof v === "function"\<close>), because
  a signal setter calls a function payload instead of storing it. A function value is
  either a reference to a user function (its behaviour is kept in the runtime state) or
  the closure \<open>() => v\<close> that \<open>Atom.from\<close> builds around a payload. Numbers are
  integers here; \<open>===\<close> is equality of these values (references compare by identity).
\<close>

datatype val = Undefined | Null | Bool bool | Num int | Str string | Obj nat | Fun func
and func = Ref nat | Thunk val

text \<open>What a \<open>throw\<close> carries: the \<open>ReferenceError\<close> of \<open>THROW\<close>, or any value thrown by user code.\<close>

datatype exn = ReferenceError string | Thrown val

text \<open>
  A JavaScript computation over a state \<open>'s\<close>: it returns a value or throws, and in both
  cases leaves a state behind (effects performed before a \<open>throw\<close> persist).
\<close>

type_synonym ('s, 'a) js = "'s \<Rightarrow> (exn + 'a) \<times> 's"

definition pure_js :: "'a \<Rightarrow> ('s, 'a) js" where
  "pure_js x = (\<lambda>s. (Inr x, s))"

definition throw_js :: "exn \<Rightarrow> ('s, 'a) js" where
  "throw_js e = (\<lambda>s. (Inl e, s))"

definition then_js :: "('s, 'a) js \<Rightarrow> ('a \<Rightarrow> ('s, 'b) js) \<Rightarrow> ('s, 'b) js" where
  "then_js m k = (\<lambda>s. case m s of (Inl e, s') \<Rightarrow> (Inl e, s') | (Inr x, s') \<Rightarrow> k x s')"

section \<open>util.ts\<close>

text \<open>\<open>NO_OP = () => { }\<close> and \<open>IDENTITY = function(x) { return x; }\<close>.\<close>

definition NO_OP :: "('s, unit) js" where
  "NO_OP = pure_js ()"

definition IDENTITY :: "'a \<Rightarrow> ('s, 'a) js" where
  "IDENTITY x = pure_js x"

section \<open>The Atom class\<close>

text \<open>
  \<open>constructor(public get: Accessor<T>, public set: (x: T) => void)\<close>. The field \<open>set\<close>
  is written \<open>set'\<close>.
\<close>

record ('s, 'a) Atom =
  get :: "('s, 'a) js"
  set' :: "'a \<Rightarrow> ('s, unit) js"

text \<open>\<open>get value() { return this.get(); }\<close> and \<open>set value(v) { this.set(v); }\<close>.\<close>

definition value_get :: "('s, 'a) Atom \<Rightarrow> ('s, 'a) js" where
  "value_get a = get a"

definition value_set :: "('s, 'a) Atom \<Rightarrow> 'a \<Rightarrow> ('s, unit) js" where
  "value_set a v = set' a v"

text \<open>
  \<open>THROW = () => { throw new ReferenceError(`No setter was defined for the current
  ${JSON.stringify(Atom.name)}`); }\<close>, where \<open>Atom.name\<close> is the class name.
\<close>

definition Atom_name :: string where
  "Atom_name = ''Atom''"

definition JSON_stringify :: "string \<Rightarrow> string" where
  "JSON_stringify x = [CHR 0x22] @ x @ [CHR 0x22]"

definition THROW :: "'a \<Rightarrow> ('s, unit) js" where
  "THROW v = throw_js (ReferenceError (''No setter was defined for the current '' @ JSON_stringify Atom_name))"

text \<open>\<open>convert(to, from) { return new Atom(() => to(this.value), v => this.value = from(v)); }\<close>\<close>

definition convert ::
  "('s, 'a) Atom \<Rightarrow> ('a \<Rightarrow> ('s, 'b) js) \<Rightarrow> ('b \<Rightarrow> ('s, 'a) js) \<Rightarrow> ('s, 'b) Atom" where
  "convert this to from =
     \<lparr>get = then_js (value_get this) to,
      set' = (\<lambda>v. then_js (from v) (value_set this))\<rparr>"

text \<open>\<open>static readOnly(f) { return new this(f, THROW); }\<close>\<close>

definition Atom_readOnly :: "('s, 'a) js \<Rightarrow> ('s, 'a) Atom" where
  "Atom_readOnly f = \<lparr>get = f, set' = THROW\<rparr>"

text \<open>\<open>static unwrap(f) { return new this(() => f().value, v => f().value = v); }\<close>\<close>

definition Atom_unwrap :: "('s, ('s, 'a) Atom) js \<Rightarrow> ('s, 'a) Atom" where
  "Atom_unwrap f =
     \<lparr>get = then_js f value_get,
      set' = (\<lambda>v. then_js f (\<lambda>a. value_set a v))\<rparr>"

text \<open>
  Modelled from the spec: \<open>createSelector(source, fn)\<close>, the runtime's "equality against a
  moving target" primitive, which is imported. It returns \<open>isSelected\<close>, whose value for a
  key is \<open>fn(key, v)\<close> with \<open>v\<close> the current value of \<open>source\<close> (the runtime's bookkeeping
  of which keys to notify is not part of the value).
\<close>

definition createSelector ::
  "('s, 'a) js \<Rightarrow> ('a \<Rightarrow> 'a \<Rightarrow> ('s, bool) js) \<Rightarrow> 'a \<Rightarrow> ('s, bool) js" where
  "createSelector source fn = (\<lambda>key. then_js source (\<lambda>v. fn key v))"

text \<open>
  Modelled from the spec: \<open>equalFn\<close>, the runtime's default equality \<open>(a, b) => a === b\<close>,
  which is imported.
\<close>

definition equalFn :: "'a \<Rightarrow> 'a \<Rightarrow> ('s, bool) js" where
  "equalFn a b = pure_js (a = b)"

text \<open>
  \<open>selector(comp = equalFn)\<close>: the factory \<open>(f, def) => new Atom(() => isSelected(f()), v => {
  const value = f(); if (v) return this.value = value; if (!comp(value, this.value)) return;
  this.value = def; })\<close>. The parameter \<open>comp\<close> is written \<open>comp'\<close>.
\<close>

definition selector ::
  "('s, 'a) Atom \<Rightarrow> ('a \<Rightarrow> 'a \<Rightarrow> ('s, bool) js) option \<Rightarrow> ('s, 'a) js \<Rightarrow> 'a \<Rightarrow> ('s, bool) Atom" where
  "selector this comp_opt =
     (let comp' = (case comp_opt of None \<Rightarrow> equalFn | Some c \<Rightarrow> c);
          isSelected = createSelector (get this) comp'
      in (\<lambda>f def.
        \<lparr>get = then_js f isSelected,
         set' = (\<lambda>v. then_js f (\<lambda>value.
                  if v then value_set this value
                  else then_js (value_get this) (\<lambda>cur. then_js (comp' value cur) (\<lambda>sel.
                         if \<not> sel then pure_js () else value_set this def))))\<rparr>))"

section \<open>The reactive runtime: signals, tracking, untrack\<close>

text \<open>
  Modelled from the spec: the state of the reactive runtime the library runs on, which is
  imported (\<open>solid-js\<close>). A signal node holds its value and
  its comparator (\<open>None\<close> is \<open>equals: false\<close>); \<open>Listener\<close> is the computation that is
  running and tracking its reads; \<open>deps\<close> holds the edges (computation, signal) a tracked
  read registers; \<open>stale\<close> lists the computations a write has marked for re-execution;
  \<open>funs\<close> gives the behaviour of the user functions that occur as values.
\<close>

record signal_node =
  node_value :: val
  comparator :: "(val \<Rightarrow> val \<Rightarrow> bool) option"

record runtime =
  signals :: "nat \<Rightarrow> signal_node"
  fresh :: nat
  funs :: "nat \<Rightarrow> val \<Rightarrow> val"
  Listener :: "nat option"
  deps :: "(nat \<times> nat) list"
  stale :: "nat list"
  ncomp :: nat

text \<open>Modelled from the spec: the imported type \<open>SignalOptions\<close>; \<open>equals\<close> is \<open>false\<close> or a comparer.\<close>

datatype equals_option = Equals_false | Equals_fn "val \<Rightarrow> val \<Rightarrow> bool"

record SignalOptions =
  equals :: "equals_option option"

text \<open>
  Modelled from the spec: the imported \<open>createSignal(value, options)\<close>, the runtime's
  tracked read/write cell. It makes a new node with \<open>value\<close>; its comparator is the
  \<open>equals\<close> option, by default \<open>===\<close>, and none for \<open>equals: false\<close>. The signal is
  identified by the index of its node.
\<close>

definition createSignal :: "val \<Rightarrow> SignalOptions option \<Rightarrow> runtime \<Rightarrow> nat \<times> runtime" where
  "createSignal v options s =
     (let cmp = (case options of None \<Rightarrow> Some (=)
                 | Some opts \<Rightarrow> (case equals opts of None \<Rightarrow> Some (=)
                                | Some Equals_false \<Rightarrow> None
                                | Some (Equals_fn c) \<Rightarrow> Some c))
      in (fresh s,
          s\<lparr>signals := (signals s)(fresh s := \<lparr>node_value = v, comparator = cmp\<rparr>),
            fresh := Suc (fresh s)\<rparr>))"

text \<open>
  Modelled from the spec: the getter of a signal, a tracked read. Under a listener it
  registers the dependency.
\<close>

definition readSignal :: "nat \<Rightarrow> (runtime, val) js" where
  "readSignal n s =
     (Inr (node_value (signals s n)),
      case Listener s of None \<Rightarrow> s | Some c \<Rightarrow> s\<lparr>deps := deps s @ [(c, n)]\<rparr>)"

text \<open>
  Modelled from the spec: the write of the runtime's cell. Unless the comparator finds the
  old and the new value equal, it stores the value and marks every observer of the node
  stale.
\<close>

definition writeSignal :: "nat \<Rightarrow> val \<Rightarrow> (runtime, val) js" where
  "writeSignal n v s =
     (let node = signals s n in
      if (case comparator node of None \<Rightarrow> True | Some c \<Rightarrow> \<not> c (node_value node) v)
      then (Inr v, s\<lparr>signals := (signals s)(n := node\<lparr>node_value := v\<rparr>),
                     stale := stale s @ map fst (filter (\<lambda>(c, m). m = n) (deps s))\<rparr>)
      else (Inr v, s))"

text \<open>Calling a function value with one argument.\<close>

definition call_func :: "runtime \<Rightarrow> func \<Rightarrow> val \<Rightarrow> val" where
  "call_func s f x = (case f of Ref k \<Rightarrow> funs s k x | Thunk v \<Rightarrow> v)"

text \<open>
  Modelled from the spec: the setter of a signal, with the runtime's updater-function
  convention: a payload that is a function is called on the previous value and its result
  is written; any other payload is written as it is.
\<close>

definition setter :: "nat \<Rightarrow> val \<Rightarrow> (runtime, val) js" where
  "setter n v s =
     (case v of Fun f \<Rightarrow> writeSignal n (call_func s f (node_value (signals s n))) s
      | _ \<Rightarrow> writeSignal n v s)"

text \<open>
  Modelled from the spec: the imported \<open>untrack(fn)\<close>, the untracked-read primitive. It runs
  \<open>fn\<close> with no listener and then restores the listener.
\<close>

definition untrack :: "(runtime \<Rightarrow> 'r \<times> runtime) \<Rightarrow> runtime \<Rightarrow> 'r \<times> runtime" where
  "untrack fn s = (case fn (s\<lparr>Listener := None\<rparr>) of (r, s') \<Rightarrow> (r, s'\<lparr>Listener := Listener s\<rparr>))"

text \<open>\<open>static from([ get, set ]) { return new this(get, v => set(() => v)); }\<close>\<close>

definition Atom_from :: "nat \<Rightarrow> (runtime, val) Atom" where
  "Atom_from n =
     \<lparr>get = readSignal n,
      set' = (\<lambda>v. then_js (setter n (Fun (Thunk v))) (\<lambda>r. pure_js ()))\<rparr>"

text \<open>\<open>static value(v, opts) { return this.from(createSignal(v, opts)); }\<close>\<close>

definition Atom_value :: "val \<Rightarrow> SignalOptions option \<Rightarrow> runtime \<Rightarrow> (runtime, val) Atom \<times> runtime" where
  "Atom_value v opts s = (case createSignal v opts s of (n, s') \<Rightarrow> (Atom_from n, s'))"

text \<open>
  \<open>update(f = IDENTITY) { const out = f(untrack(this.get)); return this.set(out), out; }\<close>.
  An omitted argument is \<open>None\<close>.
\<close>

definition update ::
  "(runtime, 'a) Atom \<Rightarrow> ('a \<Rightarrow> (runtime, 'a) js) option \<Rightarrow> (runtime, 'a) js" where
  "update this f_opt =
     (let f = (case f_opt of None \<Rightarrow> IDENTITY | Some g \<Rightarrow> g)
      in then_js (untrack (get this)) (\<lambda>prev.
         then_js (f prev) (\<lambda>out.
         then_js (set' this out) (\<lambda>r. pure_js out))))"

section \<open>Memos and \<open>Atom.source\<close>\<close>

text \<open>
  Modelled from the spec: the imported \<open>on(deps, fn)\<close>, which makes the tracked inputs of a
  computation explicit: the computation reads \<open>deps\<close> tracked and then calls \<open>fn\<close> on the
  result inside \<open>untrack\<close>, on every run of the computation.
  (The previous input and value, which the callback of \<open>Atom.source\<close> does not take, are
  left out. Computations given to a memo are taken not to throw.)
\<close>

definition on ::
  "(runtime \<Rightarrow> 'i \<times> runtime) \<Rightarrow> ('i \<Rightarrow> runtime \<Rightarrow> 'a \<times> runtime) \<Rightarrow> runtime \<Rightarrow> 'a \<times> runtime" where
  "on deps_fn fn = (\<lambda>s. case deps_fn s of (input, s') \<Rightarrow> untrack (fn input) s')"

text \<open>
  Modelled from the spec: the runtime together with the node of one memo: the computation
  \<open>createMemo\<close> was given, the identity of the node as a listener, and the value it caches.
\<close>

record 'a world =
  rt :: runtime
  memo_id :: nat
  memo_fn :: "runtime \<Rightarrow> 'a \<times> runtime"
  memo_value :: 'a

text \<open>
  Modelled from the spec: the imported \<open>createMemo(fn)\<close>, the memoization primitive. It
  allocates the node and runs \<open>fn\<close> once, at creation, with the node as listener, caching
  the result.
\<close>

definition createMemo :: "(runtime \<Rightarrow> 'a \<times> runtime) \<Rightarrow> runtime \<Rightarrow> 'a world" where
  "createMemo fn s =
     (let c = ncomp s;
          s0 = s\<lparr>ncomp := Suc c\<rparr>
      in case fn (s0\<lparr>Listener := Some c\<rparr>) of (v, s1) \<Rightarrow>
           \<lparr>rt = s1\<lparr>Listener := Listener s0\<rparr>, memo_id = c, memo_fn = fn, memo_value = v\<rparr>)"

text \<open>
  Modelled from the spec: re-execution of a memo by the runtime. The old dependency edges of
  the node are dropped (\<open>cleanNode\<close>), its computation runs with the node as listener, and
  the result replaces the cached value.
\<close>

definition cleanNode :: "nat \<Rightarrow> runtime \<Rightarrow> runtime" where
  "cleanNode c s = s\<lparr>deps := filter (\<lambda>(obs, n). obs \<noteq> c) (deps s)\<rparr>"

definition updateComputation :: "'a world \<Rightarrow> 'a world" where
  "updateComputation w =
     (case memo_fn w ((cleanNode (memo_id w) (rt w))\<lparr>Listener := Some (memo_id w)\<rparr>) of (v, s2) \<Rightarrow>
        w\<lparr>rt := s2\<lparr>Listener := Listener (rt w)\<rparr>, memo_value := v\<rparr>)"

text \<open>
  Modelled from the spec: change propagation. After a write the runtime re-executes the
  computations the write marked stale, before control returns to the writer: here, the
  memo if it is among them.
\<close>

definition runUpdates :: "'a world \<Rightarrow> 'a world" where
  "runUpdates w =
     (if memo_id w \<in> set (stale (rt w))
      then updateComputation (w\<lparr>rt := (rt w)\<lparr>stale := removeAll (memo_id w) (stale (rt w))\<rparr>\<rparr>)
      else w)"

text \<open>
  An operation on the runtime, performed in the world that holds the memo, and an Atom of
  the runtime seen from that world.
\<close>

definition in_world :: "(runtime, 'r) js \<Rightarrow> ('a world, 'r) js" where
  "in_world m w = (case m (rt w) of (r, s') \<Rightarrow> (r, runUpdates (w\<lparr>rt := s'\<rparr>)))"

definition Atom_in_world :: "(runtime, 'v) Atom \<Rightarrow> ('a world, 'v) Atom" where
  "Atom_in_world a = \<lparr>get = in_world (get a), set' = (\<lambda>v. in_world (set' a v))\<rparr>"

text \<open>Modelled from the spec: the accessor \<open>createMemo\<close> returns, a read of the cached value.\<close>

definition readMemo :: "('a world, 'a) js" where
  "readMemo w = (Inr (memo_value w), w)"

text \<open>
  \<open>static source(bind, f = createSignal) { return this.unwrap(createMemo(on(bind, x => x ??
  this.from(f())))); }\<close>. \<open>bind\<close> returns an Atom or \<open>undefined\<close> (\<open>None\<close>); \<open>f\<close> returns a
  signal; an omitted \<open>f\<close> is \<open>createSignal\<close> called with no argument.
\<close>

definition resolve ::
  "(runtime \<Rightarrow> nat \<times> runtime) \<Rightarrow> (runtime, val) Atom option \<Rightarrow> runtime \<Rightarrow> (runtime, val) Atom \<times> runtime" where
  "resolve f x = (case x of Some a \<Rightarrow> (\<lambda>s. (a, s))
                  | None \<Rightarrow> (\<lambda>s. case f s of (n, s') \<Rightarrow> (Atom_from n, s')))"

definition Atom_source ::
  "(runtime \<Rightarrow> (runtime, val) Atom option \<times> runtime) \<Rightarrow> (runtime \<Rightarrow> nat \<times> runtime) option \<Rightarrow>
   runtime \<Rightarrow> ((runtime, val) Atom world, val) Atom \<times> (runtime, val) Atom world" where
  "Atom_source bind f_opt s =
     (let f = (case f_opt of None \<Rightarrow> createSignal Undefined None | Some g \<Rightarrow> g)
      in (Atom_unwrap (then_js readMemo (\<lambda>a. pure_js (Atom_in_world a))),
          createMemo (on bind (resolve f)) s))"

section \<open>Deferred writes\<close>

text \<open>
  \<open>defer(schedule)\<close> keeps one variable, \<open>clear\<close>, and its setter is an \<open>async\<close> function
  that suspends at an \<open>await\<close>. The state of one deferred Atom is: the state the wrapped
  Atom lives in; \<open>clear\<close> (\<open>None\<close> is \<open>NO_OP\<close>, \<open>Some k\<close> the callback \<open>schedule\<close> returned
  for its \<open>k\<close>-th call); the setter calls suspended at their \<open>await\<close>, each with the
  number of its trigger and its payload; the continuations whose trigger has fired and
  which wait in the microtask queue; the number of calls of \<open>schedule\<close> so far; and the
  steps taken, in order: the calls of the stored callback, the calls of \<open>schedule\<close>, the
  assignments to \<open>clear\<close> and the writes to the wrapped Atom.

  \<open>schedule\<close> is the caller's: it is told of every trigger and of every cancellation, and
  it decides which trigger fires and when. Its calls are recorded; its decisions are the
  events of a run.
\<close>

datatype 'a effect =
  Clear_called "nat option" | Schedule_called nat | Clear_assigned "nat option" | Written nat 'a

record ('s, 'a) deferred =
  target :: 's
  clear :: "nat option"
  suspended :: "(nat \<times> 'a) list"
  microtasks :: "(nat \<times> 'a) list"
  next_id :: nat
  effects :: "'a effect list"

text \<open>
  The setter up to its \<open>await\<close>: \<open>clear(); await new Promise<void>(t => clear = schedule(t));\<close>
\<close>

definition defer_set :: "'a \<Rightarrow> ('s, 'a) deferred \<Rightarrow> ('s, 'a) deferred" where
  "defer_set v d =
     (let d1 = d\<lparr>effects := effects d @ [Clear_called (clear d)]\<rparr>;
          k = next_id d1;
          d2 = d1\<lparr>effects := effects d1 @ [Schedule_called k], next_id := Suc k\<rparr>;
          d3 = d2\<lparr>clear := Some k, effects := effects d2 @ [Clear_assigned (Some k)]\<rparr>
      in d3\<lparr>suspended := suspended d3 @ [(k, v)]\<rparr>)"

text \<open>
  The trigger \<open>t\<close> of the \<open>k\<close>-th call resolves its promise: the suspended setter call moves
  to the microtask queue. Calling it again, or when nothing waits for it, does nothing.
\<close>

definition trigger :: "nat \<Rightarrow> ('s, 'a) deferred \<Rightarrow> ('s, 'a) deferred" where
  "trigger k d =
     (case map_of (suspended d) k of None \<Rightarrow> d
      | Some v \<Rightarrow> d\<lparr>suspended := filter (\<lambda>(j, u). j \<noteq> k) (suspended d),
                    microtasks := microtasks d @ [(k, v)]\<rparr>)"

text \<open>
  The setter after its \<open>await\<close>, run as the next microtask: \<open>clear = NO_OP; this.value = v;\<close>.
  An exception of the write rejects the promise the setter returned and goes no further.
\<close>

definition resume :: "('s, 'a) Atom \<Rightarrow> ('s, 'a) deferred \<Rightarrow> ('s, 'a) deferred" where
  "resume this d =
     (case microtasks d of [] \<Rightarrow> d
      | (k, v) # rest \<Rightarrow>
          (let d1 = d\<lparr>microtasks := rest\<rparr>;
               d2 = d1\<lparr>clear := None, effects := effects d1 @ [Clear_assigned None]\<rparr>
           in d2\<lparr>target := snd (value_set this v (target d2)),
                 effects := effects d2 @ [Written k v]\<rparr>))"

text \<open>
  \<open>defer(schedule) { var clear = NO_OP; return new Atom(this.get, async v => { ... }); }\<close>:
  the new state starts with \<open>clear = NO_OP\<close>; the getter is the wrapped one; the setter
  returns at once (with a promise). The method \<open>defer\<close> is written \<open>defer_atom\<close>.
\<close>

definition defer_init :: "'s \<Rightarrow> ('s, 'a) deferred" where
  "defer_init s = \<lparr>target = s, clear = None, suspended = [], microtasks = [], next_id = 0, effects = []\<rparr>"

definition defer_atom :: "('s, 'a) Atom \<Rightarrow> (('s, 'a) deferred, 'a) Atom" where
  "defer_atom this =
     \<lparr>get = (\<lambda>d. case get this (target d) of (r, s') \<Rightarrow> (r, d\<lparr>target := s'\<rparr>)),
      set' = (\<lambda>v d. (Inr (), defer_set v d))\<rparr>"

text \<open>A run: calls of the deferred setter, triggers fired by the scheduler, microtasks run.\<close>

datatype 'a event = Call_set 'a | Trigger nat | Microtask

fun step :: "('s, 'a) Atom \<Rightarrow> 'a event \<Rightarrow> ('s, 'a) deferred \<Rightarrow> ('s, 'a) deferred" where
  "step this (Call_set v) d = snd (set' (defer_atom this) v d)"
| "step this (Trigger k) d = trigger k d"
| "step this Microtask d = resume this d"

fun run :: "('s, 'a) Atom \<Rightarrow> 'a event list \<Rightarrow> ('s, 'a) deferred \<Rightarrow> ('s, 'a) deferred" where
  "run this [] d = d"
| "run this (e # es) d = run this es (step this e d)"

text \<open>The triggers whose cancellation callback has been called.\<close>

fun cancelled :: "'a effect list \<Rightarrow> nat list" where
  "cancelled [] = []"
| "cancelled (Clear_called (Some k) # es) = k # cancelled es"
| "cancelled (e # es) = cancelled es"

text \<open>
  The pending writes: the suspended setter calls that were not cancelled, and the
  continuations in the microtask queue.
\<close>

definition pending :: "('s, 'a) deferred \<Rightarrow> nat list" where
  "pending d = filter (\<lambda>k. k \<notin> set (cancelled (effects d))) (map fst (suspended d)) @ map fst (microtasks d)"


text \<open>The values written to the wrapped Atom, in order, with the trigger of each.\<close>

fun writes :: "'a effect list \<Rightarrow> (nat \<times> 'a) list" where
  "writes [] = []"
| "writes (Written k v # es) = (k, v) # writes es"
| "writes (e # es) = writes es"


text \<open>
  A scheduler that honours cancellation fires no trigger whose cancellation callback has
  been called; a run is serial when the setter is not called while a continuation waits in
  the microtask queue.
\<close>

fun honoured :: "('s, 'a) Atom \<Rightarrow> 'a event list \<Rightarrow> ('s, 'a) deferred \<Rightarrow> bool" where
  "honoured this [] d = True"
| "honoured this (Trigger k # es) d = (k \<notin> set (cancelled (effects d)) \<and> honoured this es (step this (Trigger k) d))"
| "honoured this (e # es) d = honoured this es (step this e d)"



section \<open>Concrete runtimes and bindings\<close>

text \<open>An empty runtime: no signal created yet, no listener.\<close>

definition runtime_init :: runtime where
  "runtime_init =
     \<lparr>signals = (\<lambda>n. \<lparr>node_value = Undefined, comparator = Some (=)\<rparr>), fresh = 0,
      funs = (\<lambda>k x. x), Listener = None, deps = [], stale = [], ncomp = 0\<rparr>"

text \<open>
  A component with a numeric property \<open>n\<close> (signal 0, initially 1) and an Atom \<open>ext\<close> of its
  parent (over signal 1, holding 7), which binds \<open>() => n() > 5 ? ext : undefined\<close> and
  stores locally with \<open>() => createSignal(12)\<close>.
\<close>

definition demo_runtime :: runtime where
  "demo_runtime = snd (createSignal (Num 7) None (snd (createSignal (Num 1) None runtime_init)))"

definition demo_bind :: "runtime \<Rightarrow> (runtime, val) Atom option \<times> runtime" where
  "demo_bind s =
     (case readSignal 0 s of (r, s') \<Rightarrow>
        (case r of Inr (Num n) \<Rightarrow> if n > 5 then Some (Atom_from 1) else None | _ \<Rightarrow> None, s'))"

definition demo_factory :: "runtime \<Rightarrow> nat \<times> runtime" where
  "demo_factory = createSignal (Num 12) None"

definition demo_atom :: "((runtime, val) Atom world, val) Atom" where
  "demo_atom = fst (Atom_source demo_bind (Some demo_factory) demo_runtime)"

definition demo_world :: "(runtime, val) Atom world" where
  "demo_world = snd (Atom_source demo_bind (Some demo_factory) demo_runtime)"

text \<open>The property \<open>n\<close> is set from outside.\<close>

definition set_n :: "int \<Rightarrow> (runtime, val) Atom world \<Rightarrow> (runtime, val) Atom world" where
  "set_n k w = snd (in_world (setter 0 (Num k)) w)"

text \<open>The component stores 99 through its source Atom while nothing is bound.\<close>

definition demo_local :: "(runtime, val) Atom world" where
  "demo_local = snd (set' demo_atom (Num 99) demo_world)"

section \<open>Properties\<close>

lemmas demo_defs =
  demo_runtime_def runtime_init_def demo_bind_def demo_factory_def demo_atom_def demo_world_def set_n_def

lemma Atom_from_get: "get (Atom_from n) = readSignal n"
  by (simp add: Atom_from_def)

lemma Atom_from_set: "set' (Atom_from n) v = then_js (setter n (Fun (Thunk v))) (\<lambda>r. pure_js ())"
  by (simp add: Atom_from_def)

lemmas runtime_defs =
  createSignal_def readSignal_def writeSignal_def setter_def call_func_def untrack_def
  Atom_from_get Atom_from_set Atom_value_def

lemmas js_defs = then_js_def pure_js_def throw_js_def value_get_def value_set_def

text \<open>
  C9. An Atom made by \<open>Atom.readOnly(get)\<close> reads through \<open>get\<close>, by \<open>get\<close> and by the
  \<open>value\<close> property, and every write, by \<open>set\<close> or by assignment to \<open>value\<close>, throws a
  \<open>ReferenceError\<close> that names the class \<open>"Atom"\<close> and says that no setter was defined; the
  error reaches the caller, and the state is untouched.
\<close>

theorem readOnly_throws:
  "get (Atom_readOnly f) = f \<and> value_get (Atom_readOnly f) = f \<and>
   set' (Atom_readOnly f) v s =
     (Inl (ReferenceError (''No setter was defined for the current '' @ [CHR 0x22] @ ''Atom'' @ [CHR 0x22])), s) \<and>
   value_set (Atom_readOnly f) v s =
     (Inl (ReferenceError (''No setter was defined for the current '' @ [CHR 0x22] @ ''Atom'' @ [CHR 0x22])), s)"
  by (simp add: Atom_readOnly_def value_get_def value_set_def THROW_def throw_js_def
      JSON_stringify_def Atom_name_def)

text \<open>
  C8. For an Atom made by \<open>Atom.value(v)\<close> with default options (no options, or options
  without \<open>equals\<close>), assigning \<open>w\<close> to \<open>value\<close> succeeds, the cell then holds \<open>w\<close> itself,
  and reading \<open>value\<close> returns \<open>w\<close>, for every value \<open>w\<close>, functions included.
\<close>

theorem value_roundtrip:
  "(case Atom_value v None s of (a, s1) \<Rightarrow>
      (case value_set a w s1 of (r, s2) \<Rightarrow>
         r = Inr () \<and> node_value (signals s2 (fresh s)) = w \<and> fst (value_get a s2) = Inr w)) \<and>
   (case Atom_value v (Some \<lparr>equals = None\<rparr>) s of (a, s1) \<Rightarrow>
      (case value_set a w s1 of (r, s2) \<Rightarrow>
         r = Inr () \<and> node_value (signals s2 (fresh s)) = w \<and> fst (value_get a s2) = Inr w))"
  by (simp add: runtime_defs js_defs Let_def split: prod.splits)

text \<open>
  C7. For every Atom \<open>a\<close> and functions \<open>to\<close>, \<open>from\<close>: the getter of \<open>a.convert(to, from)\<close>
  is \<open>to\<close> applied to the value read from \<open>a\<close>, and its setter is \<open>a\<close>'s setter applied
  to \<open>from(v)\<close>, both computed anew at each call (an error of the read, of \<open>to\<close> or of
  \<open>from\<close> is the result). For an Atom made by \<open>Atom.value(x)\<close> and any pair of functions,
  the converted Atom reads \<open>to(x)\<close>, and after setting it to \<open>w\<close> the Atom reads \<open>from(w)\<close>.
\<close>

theorem convert_get_set:
  "get (convert a to from) s =
     (case value_get a s of (Inl e, s1) \<Rightarrow> (Inl e, s1) | (Inr x, s1) \<Rightarrow> to x s1) \<and>
   set' (convert a to from) v s =
     (case from v s of (Inl e, s1) \<Rightarrow> (Inl e, s1) | (Inr y, s1) \<Rightarrow> value_set a y s1) \<and>
   (case Atom_value x None r of (b, r1) \<Rightarrow>
      fst (value_get (convert b (\<lambda>x. pure_js (t x)) (\<lambda>y. pure_js (f y))) r1) = Inr (t x) \<and>
      (case value_set (convert b (\<lambda>x. pure_js (t x)) (\<lambda>y. pure_js (f y))) w r1 of (u, r2) \<Rightarrow>
         u = Inr () \<and> fst (value_get b r2) = Inr (f w)))"
  by (simp add: convert_def runtime_defs js_defs Let_def split: prod.splits)

text \<open>
  C5. For a boolean Atom made by the factory of \<open>selector(comp)\<close> from a candidate accessor
  \<open>f\<close> and a default \<open>def\<close>, where \<open>f()\<close> returns \<open>x\<close>: \<open>set(true)\<close> is the parent's \<open>set\<close>
  called with \<open>x\<close>; \<open>set(false)\<close> reads the parent's value \<open>cur\<close> and, when \<open>comp(x, cur)\<close>
  is false, returns without a write, and when it is true, is the parent's \<open>set\<close> called
  with \<open>def\<close>. An omitted \<open>comp\<close> is \<open>equalFn\<close>. For a parent over a signal with the
  default comparator and a candidate \<open>y\<close>: after \<open>set(true)\<close> the signal holds \<open>y\<close>; after
  \<open>set(false)\<close> it holds \<open>def\<close> if it held \<open>y\<close>, and what it held otherwise.
\<close>

theorem selector_set:
  assumes "f s = (Inr x, s1)"
  shows "set' (selector this (Some comp') f def) True s = set' this x s1 \<and>
         (\<forall>cur s2 b s3. get this s1 = (Inr cur, s2) \<and> comp' x cur s2 = (Inr b, s3) \<longrightarrow>
            set' (selector this (Some comp') f def) False s =
              (if b then set' this def s3 else (Inr (), s3))) \<and>
         selector this None f def = selector this (Some equalFn) f def \<and>
         (comparator (signals r n) = Some (=) \<longrightarrow>
            fst (set' (selector (Atom_from n) None (pure_js y) d) True r) = Inr () \<and>
            node_value (signals (snd (set' (selector (Atom_from n) None (pure_js y) d) True r)) n) = y \<and>
            fst (set' (selector (Atom_from n) None (pure_js y) d) False r) = Inr () \<and>
            node_value (signals (snd (set' (selector (Atom_from n) None (pure_js y) d) False r)) n) =
              (if y = node_value (signals r n) then d else node_value (signals r n)))"
proof -
  have a: "set' (selector this (Some comp') f def) True s = set' this x s1 \<and>
         (\<forall>cur s2 b s3. get this s1 = (Inr cur, s2) \<and> comp' x cur s2 = (Inr b, s3) \<longrightarrow>
            set' (selector this (Some comp') f def) False s =
              (if b then set' this def s3 else (Inr (), s3))) \<and>
         selector this None f def = selector this (Some equalFn) f def"
    using assms by (simp add: selector_def Let_def then_js_def pure_js_def value_get_def value_set_def)
  have b: "comparator (signals r n) = Some (=) \<longrightarrow>
            fst (set' (selector (Atom_from n) None (pure_js y) d) True r) = Inr () \<and>
            node_value (signals (snd (set' (selector (Atom_from n) None (pure_js y) d) True r)) n) = y \<and>
            fst (set' (selector (Atom_from n) None (pure_js y) d) False r) = Inr () \<and>
            node_value (signals (snd (set' (selector (Atom_from n) None (pure_js y) d) False r)) n) =
              (if y = node_value (signals r n) then d else node_value (signals r n))"
    by (auto simp: selector_def equalFn_def Let_def runtime_defs js_defs split: option.splits)
  from a b show ?thesis by blast
qed

theorem selector_set_witness:
  "set' (selector (Atom_from 0) (Some equalFn) (pure_js (Num 5)) (Num 0)) True demo_runtime =
     set' (Atom_from 0) (Num 5) demo_runtime \<and>
   node_value (signals (snd (set' (selector (Atom_from 0) None (pure_js (Num 5)) (Num 0)) True demo_runtime)) 0) = Num 5 \<and>
   set' (selector (Atom_from 0) (Some equalFn) (pure_js (Num 1)) (Num 0)) False demo_runtime =
     set' (Atom_from 0) (Num 0) demo_runtime \<and>
   node_value (signals (snd (set' (selector (Atom_from 0) None (pure_js (Num 1)) (Num 0)) False demo_runtime)) 0) = Num 0 \<and>
   set' (selector (Atom_from 0) (Some equalFn) (pure_js (Num 5)) (Num 0)) False demo_runtime =
     (Inr (), demo_runtime) \<and>
   node_value (signals (snd (set' (selector (Atom_from 0) None (pure_js (Num 5)) (Num 0)) False demo_runtime)) 0) = Num 1 \<and>
   node_value (signals demo_runtime 0) = Num 1"
proof -
  have f1: "pure_js (Num 1) demo_runtime = (Inr (Num 1), demo_runtime)"
    by (simp add: pure_js_def)
  have f5: "pure_js (Num 5) demo_runtime = (Inr (Num 5), demo_runtime)"
    by (simp add: pure_js_def)
  have g: "get (Atom_from 0) demo_runtime = (Inr (Num 1), demo_runtime)"
    by (simp add: demo_defs runtime_defs js_defs)
  have e1: "equalFn (Num 1) (Num 1) demo_runtime = (Inr True, demo_runtime)"
    by (simp add: equalFn_def pure_js_def)
  have e5: "equalFn (Num 5) (Num 1) demo_runtime = (Inr False, demo_runtime)"
    by (simp add: equalFn_def pure_js_def)
  have c0: "comparator (signals demo_runtime 0) = Some (=)"
    by (simp add: demo_defs runtime_defs)
  have v0: "node_value (signals demo_runtime 0) = Num 1"
    by (simp add: demo_defs runtime_defs)
  note t1 = selector_set [where f = "pure_js (Num 1)" and s = demo_runtime and x = "Num 1"
      and ?s1.0 = demo_runtime and this = "Atom_from 0" and comp' = equalFn and def = "Num 0"
      and r = demo_runtime and n = 0 and y = "Num 1" and d = "Num 0", OF f1]
  note t5 = selector_set [where f = "pure_js (Num 5)" and s = demo_runtime and x = "Num 5"
      and ?s1.0 = demo_runtime and this = "Atom_from 0" and comp' = equalFn and def = "Num 0"
      and r = demo_runtime and n = 0 and y = "Num 5" and d = "Num 0", OF f5]
  from t1 g e1 c0 v0
  have b: "set' (selector (Atom_from 0) (Some equalFn) (pure_js (Num 1)) (Num 0)) False demo_runtime =
     set' (Atom_from 0) (Num 0) demo_runtime"
    and b': "node_value (signals (snd (set' (selector (Atom_from 0) None (pure_js (Num 1)) (Num 0)) False demo_runtime)) 0) = Num 0"
    by auto
  from t5 g e5 c0 v0
  have a: "set' (selector (Atom_from 0) (Some equalFn) (pure_js (Num 5)) (Num 0)) True demo_runtime =
     set' (Atom_from 0) (Num 5) demo_runtime"
    and a': "node_value (signals (snd (set' (selector (Atom_from 0) None (pure_js (Num 5)) (Num 0)) True demo_runtime)) 0) = Num 5"
    and c: "set' (selector (Atom_from 0) (Some equalFn) (pure_js (Num 5)) (Num 0)) False demo_runtime =
     (Inr (), demo_runtime)"
    and c': "node_value (signals (snd (set' (selector (Atom_from 0) None (pure_js (Num 5)) (Num 0)) False demo_runtime)) 0) = Num 1"
    by auto
  from a a' b b' c c' v0 show ?thesis by simp
qed

text \<open>
  C6. For every Atom \<open>a\<close>, where the untracked read of \<open>a\<close> returns \<open>prev\<close>: \<open>a.update(f)\<close>
  computes \<open>out = f(prev)\<close>, calls \<open>a\<close>'s setter with \<open>out\<close> and returns \<open>out\<close>; with \<open>f\<close>
  omitted it calls the setter with \<open>prev\<close> and returns \<open>prev\<close>. The read leaves the
  listener of the calling context as it was, and it registers no dependency whenever the
  getter registers none in the absence of a listener.
\<close>

theorem update_steps:
  assumes "untrack (get a) s = (Inr prev, s1)"
  shows "(\<forall>out s2. f prev s1 = (Inr out, s2) \<longrightarrow>
            update a (Some f) s =
              (case set' a out s2 of (Inl e, s3) \<Rightarrow> (Inl e, s3) | (Inr u, s3) \<Rightarrow> (Inr out, s3))) \<and>
         update a None s =
           (case set' a prev s1 of (Inl e, s3) \<Rightarrow> (Inl e, s3) | (Inr u, s3) \<Rightarrow> (Inr prev, s3)) \<and>
         Listener s1 = Listener s \<and>
         ((\<forall>t. Listener t = None \<longrightarrow> deps (snd (get a t)) = deps t) \<longrightarrow> deps s1 = deps s)"
proof -
  have l: "Listener s1 = Listener s"
    using assms by (auto simp: untrack_def split: prod.splits)
  have d: "(\<forall>t. Listener t = None \<longrightarrow> deps (snd (get a t)) = deps t) \<longrightarrow> deps s1 = deps s"
  proof
    assume h: "\<forall>t. Listener t = None \<longrightarrow> deps (snd (get a t)) = deps t"
    have "deps (snd (get a (s\<lparr>Listener := None\<rparr>))) = deps (s\<lparr>Listener := None\<rparr>)"
      using h by simp
    then show "deps s1 = deps s"
      using assms by (auto simp: untrack_def split: prod.splits)
  qed
  show ?thesis
    using assms l d
    by (simp add: update_def IDENTITY_def then_js_def pure_js_def split: prod.splits sum.splits)
qed

theorem update_steps_witness:
  "update (Atom_from 0) (Some (\<lambda>x. pure_js (Num 5))) (demo_runtime\<lparr>Listener := Some 3\<rparr>) =
     (case set' (Atom_from 0) (Num 5) (demo_runtime\<lparr>Listener := Some 3\<rparr>) of
        (Inl e, s3) \<Rightarrow> (Inl e, s3) | (Inr u, s3) \<Rightarrow> (Inr (Num 5), s3)) \<and>
   update (Atom_from 0) None (demo_runtime\<lparr>Listener := Some 3\<rparr>) =
     (case set' (Atom_from 0) (Num 1) (demo_runtime\<lparr>Listener := Some 3\<rparr>) of
        (Inl e, s3) \<Rightarrow> (Inl e, s3) | (Inr u, s3) \<Rightarrow> (Inr (Num 1), s3)) \<and>
   deps (snd (untrack (get (Atom_from 0)) (demo_runtime\<lparr>Listener := Some 3\<rparr>))) = [] \<and>
   deps (snd (get (Atom_from 0) (demo_runtime\<lparr>Listener := Some 3\<rparr>))) = [(3, 0)]"
proof -
  have r: "untrack (get (Atom_from 0)) (demo_runtime\<lparr>Listener := Some 3\<rparr>) =
      (Inr (Num 1), demo_runtime\<lparr>Listener := Some 3\<rparr>)"
    by (simp add: demo_defs runtime_defs)
  have f: "(\<lambda>x. pure_js (Num 5)) (Num 1) (demo_runtime\<lparr>Listener := Some 3\<rparr>) =
      (Inr (Num 5), demo_runtime\<lparr>Listener := Some 3\<rparr>)"
    by (simp add: pure_js_def)
  have g: "\<forall>t. Listener t = None \<longrightarrow> deps (snd (get (Atom_from 0) t)) = deps t"
    by (simp add: runtime_defs)
  have d: "deps (demo_runtime\<lparr>Listener := Some 3\<rparr>) = []"
    by (simp add: demo_defs runtime_defs)
  have t: "deps (snd (get (Atom_from 0) (demo_runtime\<lparr>Listener := Some 3\<rparr>))) = [(3, 0)]"
    by (simp add: demo_defs runtime_defs)
  from update_steps [OF r, of "\<lambda>x. pure_js (Num 5)"] f g d t r show ?thesis
    by simp
qed

text \<open>
  C10. For every Atom \<open>a\<close> and function \<open>f\<close>, where the untracked read returns \<open>prev\<close> and
  \<open>f(prev)\<close> throws \<open>e\<close>: \<open>a.update(f)\<close> throws \<open>e\<close> and ends in the state \<open>f\<close> left; the
  outcome is the same whatever the setter of \<open>a\<close> is, that is, the setter is not called.
  For an Atom over a signal and an \<open>f\<close> that only throws, the whole state is unchanged.
\<close>

theorem update_throws:
  assumes "untrack (get a) s = (Inr prev, s1)" and "f prev s1 = (Inl e, s2)"
  shows "update a (Some f) s = (Inl e, s2) \<and>
         (\<forall>st. update (a\<lparr>set' := st\<rparr>) (Some f) s = (Inl e, s2)) \<and>
         update (Atom_from n) (Some (\<lambda>x. throw_js e)) r = (Inl e, r)"
  using assms by (simp add: update_def then_js_def runtime_defs throw_js_def)

theorem update_throws_witness:
  "update (Atom_from 0) (Some (\<lambda>x. throw_js (Thrown (Str ''no'')))) demo_runtime =
     (Inl (Thrown (Str ''no'')), demo_runtime) \<and>
   update ((Atom_from 0)\<lparr>set' := THROW\<rparr>) (Some (\<lambda>x. throw_js (Thrown (Str ''no'')))) demo_runtime =
     (Inl (Thrown (Str ''no'')), demo_runtime)"
proof -
  have r: "untrack (get (Atom_from 0)) demo_runtime = (Inr (Num 1), demo_runtime)"
    by (simp add: demo_defs runtime_defs)
  have f: "(\<lambda>x. throw_js (Thrown (Str ''no''))) (Num 1) demo_runtime = (Inl (Thrown (Str ''no'')), demo_runtime)"
    by (simp add: throw_js_def)
  from update_throws [where a = "Atom_from 0" and s = demo_runtime and prev = "Num 1" and ?s1.0 = demo_runtime
      and f = "\<lambda>x. throw_js (Thrown (Str ''no''))" and e = "Thrown (Str ''no'')" and ?s2.0 = demo_runtime
      and n = 0 and r = demo_runtime, OF r f]
  show ?thesis
    by simp
qed

subsection \<open>Deferred writes\<close>




















text \<open>
  C4. The setter of a deferred Atom, called with \<open>v\<close>, takes these steps in this order: it
  calls the stored cancellation callback, calls \<open>schedule\<close> with a new trigger, stores the
  callback \<open>schedule\<close> returned, and waits; it writes nothing and returns. The getter is
  the wrapped one. When the trigger fires, the waiting call moves to the microtask queue;
  when it runs, it first resets the stored callback to \<open>NO_OP\<close> and then calls the setter
  of the wrapped Atom with \<open>v\<close>.
\<close>

theorem defer_steps:
  "set' (defer_atom this) v d =
     (Inr (), d\<lparr>effects := effects d @ [Clear_called (clear d), Schedule_called (next_id d),
                                         Clear_assigned (Some (next_id d))],
               next_id := Suc (next_id d), clear := Some (next_id d),
               suspended := suspended d @ [(next_id d, v)]\<rparr>) \<and>
   get (defer_atom this) d = (case get this (target d) of (r, s') \<Rightarrow> (r, d\<lparr>target := s'\<rparr>)) \<and>
   (map_of (suspended d) k = Some u \<longrightarrow>
      trigger k d = d\<lparr>suspended := filter (\<lambda>(j, x). j \<noteq> k) (suspended d),
                      microtasks := microtasks d @ [(k, u)]\<rparr>) \<and>
   (microtasks d = (k, u) # rest \<longrightarrow>
      resume this d =
        d\<lparr>microtasks := rest, clear := None,
          effects := effects d @ [Clear_assigned None, Written k u],
          target := snd (set' this u (target d))\<rparr>)"
  by (simp add: defer_atom_def defer_set_def trigger_def resume_def Let_def value_set_def)

theorem defer_steps_witness:
  "effects (resume (Atom_from 0) (trigger 0
      (snd (set' (defer_atom (Atom_from 0)) (Num 5) (defer_init demo_runtime))))) =
     [Clear_called None, Schedule_called 0, Clear_assigned (Some 0), Clear_assigned None,
      Written 0 (Num 5)] \<and>
   node_value (signals (target (resume (Atom_from 0) (trigger 0
      (snd (set' (defer_atom (Atom_from 0)) (Num 5) (defer_init demo_runtime)))))) 0) = Num 5 \<and>
   node_value (signals (target (trigger 0
      (snd (set' (defer_atom (Atom_from 0)) (Num 5) (defer_init demo_runtime))))) 0) = Num 1"
proof -
  let ?d0 = "defer_init demo_runtime :: (runtime, val) deferred"
  let ?d1 = "?d0\<lparr>effects := effects ?d0 @ [Clear_called (clear ?d0), Schedule_called (next_id ?d0),
                                         Clear_assigned (Some (next_id ?d0))],
               next_id := Suc (next_id ?d0), clear := Some (next_id ?d0),
               suspended := suspended ?d0 @ [(next_id ?d0, Num 5)]\<rparr>"
  let ?d2 = "?d1\<lparr>suspended := filter (\<lambda>(j, x). j \<noteq> 0) (suspended ?d1),
                      microtasks := microtasks ?d1 @ [(0, Num 5)]\<rparr>"
  have a: "snd (set' (defer_atom (Atom_from 0)) (Num 5) ?d0) = ?d1"
    using defer_steps [of "Atom_from 0" "Num 5" ?d0] by simp
  have m: "map_of (suspended ?d1) 0 = Some (Num 5)"
    by (simp add: defer_init_def)
  have b: "trigger 0 ?d1 = ?d2"
    using defer_steps [of "Atom_from 0" "Num 5" ?d1 0 "Num 5"] m by blast
  have q: "microtasks ?d2 = (0, Num 5) # []"
    by (simp add: defer_init_def)
  have c: "resume (Atom_from 0) ?d2 =
        ?d2\<lparr>microtasks := [], clear := None,
          effects := effects ?d2 @ [Clear_assigned None, Written 0 (Num 5)],
          target := snd (set' (Atom_from 0) (Num 5) (target ?d2))\<rparr>"
    using defer_steps [of "Atom_from 0" "Num 5" ?d2 0 "Num 5" "[]"] q by blast
  show ?thesis
    unfolding a b c by (simp add: defer_init_def demo_defs runtime_defs js_defs)
qed




text \<open>
  The run must also be serial. The continuation of a fired trigger resets \<open>clear\<close> when it
  runs, and a call of the setter that came in between has by then stored its own callback
  there; that callback is lost, the next call of the setter cancels nothing, and two writes
  are pending, of which both reach the wrapped Atom, with a scheduler that honours
  cancellation.
\<close>

lemma defer_race:
  "honoured (Atom_from 0)
     [Call_set (Num 10), Trigger 0, Call_set (Num 20), Microtask, Call_set (Num 30), Trigger 1, Microtask]
     (defer_init demo_runtime) \<and>
   pending (run (Atom_from 0)
     [Call_set (Num 10), Trigger 0, Call_set (Num 20), Microtask, Call_set (Num 30)]
     (defer_init demo_runtime)) = [1, 2] \<and>
   writes (effects (run (Atom_from 0)
     [Call_set (Num 10), Trigger 0, Call_set (Num 20), Microtask, Call_set (Num 30), Trigger 1, Microtask]
     (defer_init demo_runtime))) = [(0, Num 10), (1, Num 20)]"
  by (simp add: defer_init_def defer_atom_def defer_set_def Let_def trigger_def resume_def pending_def)

subsection \<open>Binding with a local fallback\<close>

lemmas source_defs =
  Atom_source_def createMemo_def on_def resolve_def Atom_unwrap_def readMemo_def
  Atom_in_world_def in_world_def runUpdates_def updateComputation_def cleanNode_def




text \<open>
  The world of a source Atom holds the computation \<open>on(bind, x => x ?? this.from(f()))\<close>
  from its creation on: no operation replaces it.
\<close>

lemma memo_fn_source: "memo_fn (snd (Atom_source bind (Some f) s)) = on bind (resolve f)"
  by (simp add: Atom_source_def createMemo_def Let_def split: prod.splits)

lemma memo_fn_in_world: "memo_fn (snd (in_world m w)) = memo_fn w"
  by (simp add: in_world_def runUpdates_def updateComputation_def split: prod.splits)

lemmas all_defs = demo_local_def demo_defs source_defs runtime_defs js_defs




text \<open>
  With \<open>const sig = createSignal(12)\<close> and the factory \<open>() => sig\<close>, which returns the same
  signal at every call, the same run ends with the source Atom reading 99 and with no cell
  created: what is kept is decided by \<open>f\<close>.
\<close>

lemma source_shared_cell_kept:
  "fst (get (fst (Atom_source demo_bind (Some (\<lambda>s. (2, s))) (snd (createSignal (Num 12) None demo_runtime))))
     (set_n 3 (set_n 9 (snd (set' (fst (Atom_source demo_bind (Some (\<lambda>s. (2, s)))
        (snd (createSignal (Num 12) None demo_runtime)))) (Num 99)
        (snd (Atom_source demo_bind (Some (\<lambda>s. (2, s)))
        (snd (createSignal (Num 12) None demo_runtime))))))))) = Inr (Num 99) \<and>
   fresh (rt (set_n 3 (set_n 9 (snd (set' (fst (Atom_source demo_bind (Some (\<lambda>s. (2, s)))
        (snd (createSignal (Num 12) None demo_runtime)))) (Num 99)
        (snd (Atom_source demo_bind (Some (\<lambda>s. (2, s)))
        (snd (createSignal (Num 12) None demo_runtime))))))))) = 3"
  by (simp add: all_defs Let_def numeral_2_eq_2 numeral_3_eq_3)

text \<open>
  C2. The resolution of \<open>Atom.source\<close> is to rerun only when the value of \<open>bind\<close> changes.
  In the code it reruns whenever a signal read by \<open>bind\<close> changes: when \<open>n\<close> goes from 1
  to 2, \<open>bind\<close> yields \<open>undefined\<close> before and after, and yet \<open>f\<close> is called again (a
  fourth cell is created) and the source Atom reads 12 where it read 99.
\<close>

theorem source_reruns_on_same_result:
  "fst (demo_bind (rt demo_local)) = None \<and>
   fst (demo_bind (rt (set_n 2 demo_local))) = None \<and>
   fst (get demo_atom demo_local) = Inr (Num 99) \<and>
   fst (get demo_atom (set_n 2 demo_local)) = Inr (Num 12) \<and>
   fresh (rt demo_local) = 3 \<and>
   fresh (rt (set_n 2 demo_local)) = 4"
  by (simp add: all_defs Let_def numeral_2_eq_2 numeral_3_eq_3)

end
